theory Spec2Isabelle
  imports Main
begin

text \<open>
  main.py of the ZenTH ISO Standards Coach: a command-line front end that builds a team
  of agents and runs it on the user's questions. The front end, the constants and the
  construction of the teams are embedded from main.py. The agents, the round-robin team
  and the termination conditions themselves belong to the agent framework that main.py
  imports; they are modelled from the specification of the orchestration core, and each
  such definition says so.
\<close>

section \<open>Strings of the command-line front end\<close>

text \<open>
  Python's \<open>str\<close> is modelled by \<open>string\<close>, one \<open>char\<close> per code point, for the code
  points below 256. On that range \<open>str.isspace\<close> holds for U+0009..U+000D,
  U+001C..U+0020, U+0085 and U+00A0, and \<open>str.lower\<close> moves A..Z and the Latin-1
  capitals U+00C0..U+00DE (the multiplication sign U+00D7 apart) 32 places up and leaves
  every other code point alone.
\<close>

definition isspace :: "char \<Rightarrow> bool" where
  "isspace c =
     (let n = (of_char c :: nat)
      in (9 \<le> n \<and> n \<le> 13) \<or> (28 \<le> n \<and> n \<le> 32) \<or> n = 133 \<or> n = 160)"

definition strip :: "string \<Rightarrow> string" where
  "strip s = rev (dropWhile isspace (rev (dropWhile isspace s)))"

definition lower_char :: "char \<Rightarrow> char" where
  "lower_char c =
     (let n = (of_char c :: nat)
      in if (65 \<le> n \<and> n \<le> 90) \<or> (192 \<le> n \<and> n \<le> 222 \<and> n \<noteq> 215)
         then char_of (n + 32) else c)"

definition lower :: "string \<Rightarrow> string" where
  "lower s = map lower_char s"

section \<open>Constants of main.py\<close>

definition MODEL_NAME :: string where
  "MODEL_NAME = ''gpt-5-mini-2025-08-07''"

definition MAX_INNER_MESSAGES :: nat where
  "MAX_INNER_MESSAGES = 6"

definition MAX_OUTER_TURNS :: nat where
  "MAX_OUTER_TURNS = 2"

definition APPROVAL_KEYWORD :: string where
  "APPROVAL_KEYWORD = ''APPROVE''"

definition EXIT_COMMANDS :: "string list" where
  "EXIT_COMMANDS = [''quit'', ''exit'', ''q'', ''bye'']"

text \<open>
  The three system messages are long fixed texts that the orchestration never inspects:
  it only hands them to the reasoning backend. Each is one constructor here; the fourth
  stands for the instruction under which a \<open>SocietyOfMindAgent\<close> asks the backend for
  its summary (main.py passes none of its own).
\<close>

datatype persona =
    ZENTH_COACH_SYSTEM_MESSAGE
  | COMPLIANCE_REVIEWER_SYSTEM_MESSAGE
  | DOCUMENTATION_FORMATTER_SYSTEM_MESSAGE
  | SOCIETY_OF_MIND_INSTRUCTION

section \<open>Messages, errors, the reasoning backend\<close>

text \<open>
  Modelled from the spec: the framework's message, of which the orchestration reads the
  author, the text and the position in its transcript.
\<close>

record message =
  source :: string
  content :: string
  sequence_number :: nat

datatype error = EnvironmentError | BackendError string

record model_client =
  model :: string
  api_key :: string

text \<open>
  Modelled from the spec: the reasoning backend is the external collaborator
  \<open>complete(transcript, persona)\<close>. Here it is a function, hence deterministic, that
  answers with a text or fails.
\<close>

type_synonym backend = "persona \<Rightarrow> message list \<Rightarrow> error + string"

section \<open>Termination conditions\<close>

datatype termination_condition =
    TextMentionTermination string
  | MaxMessageTermination nat
  | OrTerminationCondition termination_condition termination_condition
  | AndTerminationCondition termination_condition termination_condition

fun starts_with :: "string \<Rightarrow> string \<Rightarrow> bool" where
  "starts_with [] s = True"
| "starts_with (k # ks) [] = False"
| "starts_with (k # ks) (c # cs) = (k = c \<and> starts_with ks cs)"

fun mentions :: "string \<Rightarrow> string \<Rightarrow> bool" where
  "mentions k [] = (k = [])"
| "mentions k (c # cs) = (starts_with k (c # cs) \<or> mentions k cs)"

text \<open>
  Modelled from the spec: the termination conditions live in the agent framework that
  main.py imports, not in the repository. \<open>MaxMessages(n)\<close> is true once the transcript
  has at least n messages, \<open>TextMention(keyword)\<close> once any message's content has the
  keyword as a case-sensitive substring; \<open>Or\<close> and \<open>And\<close> are the boolean connectives.
  Evaluation reads the transcript and nothing else.
\<close>

fun evaluate :: "termination_condition \<Rightarrow> message list \<Rightarrow> bool" where
  "evaluate (TextMentionTermination k) tr = list_ex (\<lambda>m. mentions k (content m)) tr"
| "evaluate (MaxMessageTermination n) tr = (n \<le> length tr)"
| "evaluate (OrTerminationCondition a b) tr = (evaluate a tr \<or> evaluate b tr)"
| "evaluate (AndTerminationCondition a b) tr = (evaluate a tr \<and> evaluate b tr)"

section \<open>Agents and teams\<close>

datatype agent =
    AssistantAgent string model_client persona
  | SocietyOfMindAgent string team model_client
and team =
    RoundRobinGroupChat "agent list" "termination_condition option" "nat option"

fun agent_name :: "agent \<Rightarrow> string" where
  "agent_name (AssistantAgent nm mc p) = nm"
| "agent_name (SocietyOfMindAgent nm tm mc) = nm"

fun participants :: "team \<Rightarrow> agent list" where
  "participants (RoundRobinGroupChat ps tc mt) = ps"

text \<open>
  Modelled from the spec: a run opens its transcript with the task as message 0 under the
  synthetic identity \<open>user\<close>, and a composite agent takes the content of the outer
  transcript's latest message as the task of its inner team. Every transcript that a run
  hands to an agent holds the task message, so the empty case of \<open>last_content\<close> does
  not arise in a run.
\<close>

definition task_message :: "string \<Rightarrow> message" where
  "task_message task = \<lparr>source = ''user'', content = task, sequence_number = 0\<rparr>"

definition last_content :: "message list \<Rightarrow> string" where
  "last_content tr = (case rev tr of [] \<Rightarrow> [] | m # ms \<Rightarrow> content m)"

text \<open>
  Modelled from the spec: when a run stops. A team with no participants stops at once;
  otherwise the run stops when the termination condition holds of the transcript so far
  (it is evaluated after every appended message, the task included) or when the
  configured number of turns has been taken.
\<close>

fun stops :: "team \<Rightarrow> nat \<Rightarrow> message list \<Rightarrow> bool" where
  "stops (RoundRobinGroupChat ps tc mt) turn tr =
     (ps = []
      \<or> (case tc of None \<Rightarrow> False | Some c \<Rightarrow> evaluate c tr)
      \<or> (case mt of None \<Rightarrow> False | Some k \<Rightarrow> k \<le> turn))"

text \<open>
  Modelled from the spec: \<open>respond\<close> and the turn loop of \<open>Team.run\<close>, which are the
  framework's \<open>AssistantAgent\<close>, \<open>SocietyOfMindAgent\<close> and \<open>RoundRobinGroupChat\<close>.
  A leaf agent passes its persona and the transcript to the backend and wraps the text
  as its message. A composite agent runs its inner team to termination on the content
  of the outer transcript's latest message, asks the backend for one summary of the
  inner transcript and returns that single message under its own name; the inner
  transcript is dropped. The loop picks participant \<open>turn mod n\<close>, appends its message,
  and checks \<open>stops\<close> again; an error from \<open>respond\<close> aborts the run. The loop of a team
  with neither condition nor turn bound need not end, so both functions take fuel, and
  \<open>None\<close> says the fuel ran out.
\<close>

fun respond :: "nat \<Rightarrow> backend \<Rightarrow> agent \<Rightarrow> message list \<Rightarrow> (error + message) option"
and run_loop :: "nat \<Rightarrow> backend \<Rightarrow> team \<Rightarrow> nat \<Rightarrow> message list \<Rightarrow> (error + message list) option"
where
  "respond 0 be a tr = None"
| "respond (Suc n) be (AssistantAgent nm mc p) tr =
     (case be p tr of
        Inl e \<Rightarrow> Some (Inl e)
      | Inr txt \<Rightarrow> Some (Inr \<lparr>source = nm, content = txt, sequence_number = length tr\<rparr>))"
| "respond (Suc n) be (SocietyOfMindAgent nm tm mc) tr =
     (case run_loop n be tm 0 [task_message (last_content tr)] of
        None \<Rightarrow> None
      | Some (Inl e) \<Rightarrow> Some (Inl e)
      | Some (Inr inner) \<Rightarrow>
          (case be SOCIETY_OF_MIND_INSTRUCTION inner of
             Inl e \<Rightarrow> Some (Inl e)
           | Inr txt \<Rightarrow> Some (Inr \<lparr>source = nm, content = txt, sequence_number = length tr\<rparr>)))"
| "run_loop 0 be tm turn tr = None"
| "run_loop (Suc n) be tm turn tr =
     (if stops tm turn tr then Some (Inr tr)
      else
        (case respond n be (participants tm ! (turn mod length (participants tm))) tr of
           None \<Rightarrow> None
         | Some (Inl e) \<Rightarrow> Some (Inl e)
         | Some (Inr m) \<Rightarrow> run_loop n be tm (Suc turn) (tr @ [m])))"

definition run_team :: "nat \<Rightarrow> backend \<Rightarrow> team \<Rightarrow> string \<Rightarrow> (error + message list) option" where
  "run_team fuel be tm task = run_loop fuel be tm 0 [task_message task]"

section \<open>The pipeline built by main.py\<close>

record env =
  OPENAI_API_KEY :: "string option"
  SINGLE_QUERY :: "string option"

definition create_model_client :: "env \<Rightarrow> error + model_client" where
  "create_model_client ev =
     (case OPENAI_API_KEY ev of
        None \<Rightarrow> Inl EnvironmentError
      | Some k \<Rightarrow>
          if k = [] then Inl EnvironmentError
          else Inr \<lparr>model = MODEL_NAME, api_key = k\<rparr>)"

definition create_zenth_coach_agent :: "model_client \<Rightarrow> agent" where
  "create_zenth_coach_agent mc =
     AssistantAgent ''ZenTH_ISO_Standards_Coach'' mc ZENTH_COACH_SYSTEM_MESSAGE"

definition create_compliance_reviewer_agent :: "model_client \<Rightarrow> agent" where
  "create_compliance_reviewer_agent mc =
     AssistantAgent ''Compliance_Reviewer'' mc COMPLIANCE_REVIEWER_SYSTEM_MESSAGE"

definition create_documentation_formatter_agent :: "model_client \<Rightarrow> agent" where
  "create_documentation_formatter_agent mc =
     AssistantAgent ''Documentation_Formatter'' mc DOCUMENTATION_FORMATTER_SYSTEM_MESSAGE"

definition create_standards_team :: "agent \<Rightarrow> agent \<Rightarrow> team" where
  "create_standards_team zenth_coach compliance_reviewer =
     (let termination_cond =
            OrTerminationCondition (TextMentionTermination APPROVAL_KEYWORD)
              (MaxMessageTermination MAX_INNER_MESSAGES)
      in RoundRobinGroupChat [zenth_coach, compliance_reviewer] (Some termination_cond) None)"

definition create_final_team :: "agent \<Rightarrow> agent \<Rightarrow> team" where
  "create_final_team society_of_mind documentation_formatter =
     RoundRobinGroupChat [society_of_mind, documentation_formatter] None (Some MAX_OUTER_TURNS)"

section \<open>The front end\<close>

datatype stdin_event = Line string | EOFError | KeyboardInterrupt

datatype printed =
    WelcomeMessage
  | PromptQuestion
  | PleaseEnterQuestion
  | ThankYou
  | SessionInterrupted
  | Header string
  | Rendered "message list"
  | SeparatorLine
  | ErrorDuringConsultation error
  | ConsultationErrorNotice error
  | ConfigurationErrorNotice error
  | UnexpectedErrorNotice error
  | ErrorNotice error

text \<open>
  \<open>get_user_input\<close> reads one event from standard input: a line, or the \<open>EOFError\<close> or
  \<open>KeyboardInterrupt\<close> that \<open>input\<close> raises. It returns what it printed and the query.
\<close>

fun get_user_input :: "stdin_event \<Rightarrow> printed list \<times> string option" where
  "get_user_input (Line s) =
     (let user_query = strip s
      in if user_query = [] then ([PromptQuestion, PleaseEnterQuestion], None)
         else if lower user_query \<in> set EXIT_COMMANDS then ([PromptQuestion, ThankYou], None)
         else ([PromptQuestion], Some user_query))"
| "get_user_input EOFError = ([PromptQuestion, SessionInterrupted], None)"
| "get_user_input KeyboardInterrupt = ([PromptQuestion, SessionInterrupted], None)"

text \<open>
  \<open>run_consultation\<close> prints the header, renders the stream of the team's run and the
  closing separator; when the run raises it prints the error and raises it again. What
  the console had rendered of a run before it was aborted is not recorded.
\<close>

definition run_consultation ::
  "nat \<Rightarrow> backend \<Rightarrow> team \<Rightarrow> string \<Rightarrow> (printed list \<times> (error + unit)) option" where
  "run_consultation fuel be final_team query =
     (case run_team fuel be final_team query of
        None \<Rightarrow> None
      | Some (Inr tr) \<Rightarrow> Some ([Header query, Rendered tr, SeparatorLine], Inr ())
      | Some (Inl e) \<Rightarrow> Some ([Header query, ErrorDuringConsultation e], Inl e))"

text \<open>
  The \<open>while True\<close> loop of \<open>interactive_session\<close>. Standard input is the list of the
  events still to come; reading past its end is \<open>EOFError\<close>.
\<close>

fun interactive_loop ::
  "nat \<Rightarrow> backend \<Rightarrow> team \<Rightarrow> stdin_event list \<Rightarrow> printed list option" where
  "interactive_loop fuel be final_team [] = Some (fst (get_user_input EOFError))"
| "interactive_loop fuel be final_team (ev # rest) =
     (case get_user_input ev of
        (out, None) \<Rightarrow> Some out
      | (out, Some query) \<Rightarrow>
          (case run_consultation fuel be final_team query of
             None \<Rightarrow> None
           | Some (out2, Inr u) \<Rightarrow>
               map_option (\<lambda>r. out @ out2 @ r) (interactive_loop fuel be final_team rest)
           | Some (out2, Inl e) \<Rightarrow>
               map_option (\<lambda>r. out @ out2 @ [ConsultationErrorNotice e] @ r)
                 (interactive_loop fuel be final_team rest)))"

definition interactive_session ::
  "nat \<Rightarrow> env \<Rightarrow> backend \<Rightarrow> stdin_event list \<Rightarrow> (printed list \<times> (error + unit)) option" where
  "interactive_session fuel ev be stdin =
     (case create_model_client ev of
        Inl e \<Rightarrow>
          (case e of
             EnvironmentError \<Rightarrow> Some ([WelcomeMessage, ConfigurationErrorNotice e], Inr ())
           | BackendError c \<Rightarrow> Some ([WelcomeMessage, UnexpectedErrorNotice e], Inr ()))
      | Inr mc \<Rightarrow>
          (let zenth_coach = create_zenth_coach_agent mc;
               compliance_reviewer = create_compliance_reviewer_agent mc;
               documentation_formatter = create_documentation_formatter_agent mc;
               standards_team = create_standards_team zenth_coach compliance_reviewer;
               society_of_mind = SocietyOfMindAgent ''Medical_Standards_SoM'' standards_team mc;
               final_team = create_final_team society_of_mind documentation_formatter
           in map_option (\<lambda>r. (WelcomeMessage # r, Inr ()))
                (interactive_loop fuel be final_team stdin)))"

definition run_single_query ::
  "nat \<Rightarrow> env \<Rightarrow> backend \<Rightarrow> string \<Rightarrow> (printed list \<times> (error + unit)) option" where
  "run_single_query fuel ev be query =
     (case create_model_client ev of
        Inl e \<Rightarrow> Some ([ErrorNotice e], Inl e)
      | Inr mc \<Rightarrow>
          (let zenth_coach = create_zenth_coach_agent mc;
               compliance_reviewer = create_compliance_reviewer_agent mc;
               documentation_formatter = create_documentation_formatter_agent mc;
               standards_team = create_standards_team zenth_coach compliance_reviewer;
               society_of_mind = SocietyOfMindAgent ''Medical_Standards_SoM'' standards_team mc;
               final_team = create_final_team society_of_mind documentation_formatter
           in (case run_consultation fuel be final_team query of
                 None \<Rightarrow> None
               | Some (out, Inr u) \<Rightarrow> Some (out, Inr ())
               | Some (out, Inl e) \<Rightarrow> Some (out @ [ErrorNotice e], Inl e))))"

text \<open>
  \<open>main\<close> returns what the process printed and how it ended: \<open>Inr ()\<close> when \<open>main\<close>
  returned, \<open>Inl e\<close> when the exception \<open>e\<close> left it.
\<close>

definition main ::
  "nat \<Rightarrow> env \<Rightarrow> backend \<Rightarrow> stdin_event list \<Rightarrow> (printed list \<times> (error + unit)) option" where
  "main fuel ev be stdin =
     (case SINGLE_QUERY ev of
        None \<Rightarrow> interactive_session fuel ev be stdin
      | Some single_query \<Rightarrow>
          if single_query \<noteq> [] then run_single_query fuel ev be single_query
          else interactive_session fuel ev be stdin)"

section \<open>The two teams, and fixtures for concrete runs\<close>

text \<open>
  \<open>interactive_session\<close> and \<open>run_single_query\<close> build their teams by the same chain
  of calls; the two teams that chain yields from a model client are named here.
\<close>

definition standards_team :: "model_client \<Rightarrow> team" where
  "standards_team mc =
     create_standards_team (create_zenth_coach_agent mc) (create_compliance_reviewer_agent mc)"

definition final_team :: "model_client \<Rightarrow> team" where
  "final_team mc =
     create_final_team (SocietyOfMindAgent ''Medical_Standards_SoM'' (standards_team mc) mc)
       (create_documentation_formatter_agent mc)"

text \<open>
  The stub backend of the spec's scenarios: the Coach always answers \<open>guidance text\<close>,
  the Reviewer answers \<open>APPROVE\<close>; the other two answers are fixed texts. A backend
  that is out of service fails every call.
\<close>

definition stub_backend :: backend where
  "stub_backend p tr =
     (case p of
        ZENTH_COACH_SYSTEM_MESSAGE \<Rightarrow> Inr ''guidance text''
      | COMPLIANCE_REVIEWER_SYSTEM_MESSAGE \<Rightarrow> Inr ''APPROVE''
      | DOCUMENTATION_FORMATTER_SYSTEM_MESSAGE \<Rightarrow> Inr ''formatted guidance''
      | SOCIETY_OF_MIND_INSTRUCTION \<Rightarrow> Inr ''summary'')"

definition failing_backend :: backend where
  "failing_backend p tr = Inl (BackendError ''timeout'')"

definition test_client :: model_client where
  "test_client = \<lparr>model = MODEL_NAME, api_key = ''test-key''\<rparr>"

definition test_env :: env where
  "test_env = \<lparr>OPENAI_API_KEY = Some ''test-key'', SINGLE_QUERY = None\<rparr>"

section \<open>What a run of the process shows\<close>

text \<open>
  \<open>run_consultation\<close> is the only function that prints a header, and it prints it right
  before it runs the team on that query; what follows the header is the rendered
  transcript or the error of that run. \<open>consultations\<close> reads the runs back from what
  the process printed: the task of each, with its transcript or its error.
\<close>

fun consultations :: "printed list \<Rightarrow> (string \<times> (error + message list)) list" where
  "consultations (Header q # Rendered tr # out) = (q, Inr tr) # consultations out"
| "consultations (Header q # ErrorDuringConsultation e # out) = (q, Inl e) # consultations out"
| "consultations (x # out) = consultations out"
| "consultations [] = []"

text \<open>
  The input lines an interactive session accepts, in the words of the front end's
  contract: each line is stripped; the session takes queries until the first line that is
  blank or an exit keyword, or until the input ends or is interrupted.
\<close>

fun accepted_queries :: "stdin_event list \<Rightarrow> string list" where
  "accepted_queries (Line s # rest) =
     (if strip s = [] \<or> lower (strip s) \<in> set EXIT_COMMANDS then []
      else strip s # accepted_queries rest)"
| "accepted_queries rest = []"

text \<open>Two inputs are case variants of each other when they differ in letter case only.\<close>

definition case_variant :: "string \<Rightarrow> string \<Rightarrow> bool" where
  "case_variant s t = (lower s = lower t)"

section \<open>Fuel: more of it never changes a result\<close>

lemma fuel_Suc:
  "(\<forall>a tr r. respond n be a tr = Some r \<longrightarrow> respond (Suc n) be a tr = Some r) \<and>
   (\<forall>tm turn tr r. run_loop n be tm turn tr = Some r \<longrightarrow> run_loop (Suc n) be tm turn tr = Some r)"
proof (induction n)
  case 0
  show ?case by simp
next
  case (Suc n)
  have resp: "respond (Suc (Suc n)) be a tr = Some r" if "respond (Suc n) be a tr = Some r" for a tr r
  proof (cases a)
    case (AssistantAgent nm mc p)
    with that show ?thesis by simp
  next
    case (SocietyOfMindAgent nm tm mc)
    from that SocietyOfMindAgent obtain x where
      x: "run_loop n be tm 0 [task_message (last_content tr)] = Some x"
      by (auto split: option.splits)
    with Suc have x': "run_loop (Suc n) be tm 0 [task_message (last_content tr)] = Some x"
      by blast
    from that SocietyOfMindAgent x x' show ?thesis
      by (simp del: run_loop.simps)
  qed
  have loop: "run_loop (Suc (Suc n)) be tm turn tr = Some r" if "run_loop (Suc n) be tm turn tr = Some r" for tm turn tr r
  proof (cases "stops tm turn tr")
    case True
    with that show ?thesis by simp
  next
    case False
    from that False obtain m where
      m: "respond n be (participants tm ! (turn mod length (participants tm))) tr = Some m"
      by (auto split: option.splits)
    with Suc have m': "respond (Suc n) be (participants tm ! (turn mod length (participants tm))) tr = Some m"
      by blast
    show ?thesis
    proof (cases m)
      case (Inl e)
      with that False m m' show ?thesis by (simp del: respond.simps)
    next
      case (Inr msg)
      with that False m have "run_loop n be tm (Suc turn) (tr @ [msg]) = Some r" by simp
      with Suc have "run_loop (Suc n) be tm (Suc turn) (tr @ [msg]) = Some r" by blast
      with False m' Inr show ?thesis by (simp del: respond.simps)
    qed
  qed
  from resp loop show ?case by blast
qed

lemma run_loop_fuel_mono: "run_loop n be tm turn tr = Some r \<Longrightarrow> n \<le> k \<Longrightarrow> run_loop k be tm turn tr = Some r"
proof (induction k)
  case 0
  then show ?case by simp
next
  case (Suc k)
  show ?case
  proof (cases "n = Suc k")
    case True
    with Suc show ?thesis by simp
  next
    case False
    with Suc have "run_loop k be tm turn tr = Some r" by simp
    then show ?thesis using fuel_Suc by blast
  qed
qed

lemma run_loop_result_unique:
  assumes "run_loop n be tm turn tr = Some r" and "run_loop k be tm turn tr = Some r'"
  shows "r = r'"
proof -
  from assms(1) have "run_loop (max n k) be tm turn tr = Some r"
    by (rule run_loop_fuel_mono) simp
  moreover from assms(2) have "run_loop (max n k) be tm turn tr = Some r'"
    by (rule run_loop_fuel_mono) simp
  ultimately show ?thesis by simp
qed

section \<open>Facts about single turns and about the two teams\<close>

lemma respond_source:
  "respond n be a tr = Some (Inr m) \<Longrightarrow> source m = agent_name a \<and> sequence_number m = length tr"
  by (cases n; cases a) (auto split: option.splits sum.splits)

lemma errors_from_backend:
  "(\<forall>a tr e. respond n be a tr = Some (Inl e) \<longrightarrow> (\<exists>p t. be p t = Inl e)) \<and>
   (\<forall>tm turn tr e. run_loop n be tm turn tr = Some (Inl e) \<longrightarrow> (\<exists>p t. be p t = Inl e))"
proof (induction n)
  case 0
  show ?case by simp
next
  case (Suc n)
  have resp: "\<exists>p t. be p t = Inl e" if "respond (Suc n) be a tr = Some (Inl e)" for a tr e
  proof (cases a)
    case (AssistantAgent nm mc p)
    with that show ?thesis by (auto split: sum.splits)
  next
    case (SocietyOfMindAgent nm tm mc)
    with that Suc show ?thesis
      by (fastforce split: option.splits sum.splits)
  qed
  have loop: "\<exists>p t. be p t = Inl e" if "run_loop (Suc n) be tm turn tr = Some (Inl e)" for tm turn tr e
    using that Suc by (fastforce split: if_splits option.splits sum.splits)
  from resp loop show ?case by blast
qed

lemma leaf_respond: "respond (Suc n) be (AssistantAgent nm mc p) tr \<noteq> None"
  by (simp split: sum.splits)

lemma standards_participant:
  "\<exists>nm p. participants (standards_team mc) ! (turn mod length (participants (standards_team mc))) = AssistantAgent nm mc p"
proof -
  have ps: "participants (standards_team mc) =
      [AssistantAgent ''ZenTH_ISO_Standards_Coach'' mc ZENTH_COACH_SYSTEM_MESSAGE,
       AssistantAgent ''Compliance_Reviewer'' mc COMPLIANCE_REVIEWER_SYSTEM_MESSAGE]"
    by (simp add: standards_team_def create_standards_team_def create_zenth_coach_agent_def
        create_compliance_reviewer_agent_def)
  have "turn mod Suc (Suc 0) = 0 \<or> turn mod Suc (Suc 0) = Suc 0" by arith
  then show ?thesis
  proof
    assume "turn mod Suc (Suc 0) = 0"
    then show ?thesis unfolding ps by simp
  next
    assume "turn mod Suc (Suc 0) = Suc 0"
    then show ?thesis unfolding ps by simp
  qed
qed

lemma standards_stops_at_six: "6 \<le> length tr \<Longrightarrow> stops (standards_team mc) turn tr"
  by (simp add: standards_team_def create_standards_team_def MAX_INNER_MESSAGES_def)

lemma standards_loop_returns:
  "Suc (6 - length tr) \<le> n \<Longrightarrow> \<exists>r. run_loop n be (standards_team mc) turn tr = Some r"
proof (induction "6 - length tr" arbitrary: tr turn n)
  case 0
  then obtain k where "n = Suc k" by (cases n) auto
  moreover from 0 have "stops (standards_team mc) turn tr"
    by (intro standards_stops_at_six) simp
  ultimately show ?case by simp
next
  case (Suc d)
  from Suc.prems Suc.hyps(2) obtain k where n: "n = Suc (Suc k)"
    by (cases n; cases "n - 1") auto
  obtain nm p where a: "participants (standards_team mc) ! (turn mod length (participants (standards_team mc))) = AssistantAgent nm mc p"
    using standards_participant by blast
  show ?case
  proof (cases "stops (standards_team mc) turn tr")
    case True
    with n show ?thesis by simp
  next
    case False
    show ?thesis
    proof (cases "be p tr")
      case (Inl e)
      with n a False show ?thesis by simp
    next
      case (Inr answer)
      let ?m = "\<lparr>source = nm, content = answer, sequence_number = length tr\<rparr>"
      have "d = 6 - length (tr @ [?m])" using Suc.hyps(2) by simp
      moreover have "Suc (6 - length (tr @ [?m])) \<le> Suc k" using Suc.prems Suc.hyps(2) n by simp
      ultimately obtain r where "run_loop (Suc k) be (standards_team mc) (Suc turn) (tr @ [?m]) = Some r"
        using Suc.hyps(1) by blast
      moreover have "run_loop (Suc (Suc k)) be (standards_team mc) turn tr =
          run_loop (Suc k) be (standards_team mc) (Suc turn) (tr @ [?m])"
        by (subst run_loop.simps(2)) (simp add: False a Inr del: run_loop.simps)
      ultimately show ?thesis using n by simp
    qed
  qed
qed

lemma som_respond_returns:
  "7 \<le> n \<Longrightarrow> \<exists>r. respond n be (SocietyOfMindAgent nm (standards_team mc) mc') tr = Some r"
proof -
  assume "7 \<le> n"
  then obtain k where n: "n = Suc k" and k: "6 \<le> k" by (cases n) auto
  from k obtain r where "run_loop k be (standards_team mc) 0 [task_message (last_content tr)] = Some r"
    using standards_loop_returns [where tr = "[task_message (last_content tr)]" and n = k and be = be and mc = mc and turn = 0] by auto
  with n show ?thesis by (auto split: sum.splits)
qed

lemma run_loop_Inr_cases:
  assumes "run_loop n be tm turn tr = Some (Inr tr')"
  shows "\<exists>k. n = Suc k \<and>
           ((stops tm turn tr \<and> tr' = tr) \<or>
            (\<not> stops tm turn tr \<and>
             (\<exists>m. respond k be (participants tm ! (turn mod length (participants tm))) tr = Some (Inr m) \<and>
                  run_loop k be tm (Suc turn) (tr @ [m]) = Some (Inr tr'))))"
  using assms by (cases n) (auto split: if_splits option.splits sum.splits)

lemma respond_som_Inr:
  assumes "respond n be (SocietyOfMindAgent nm tm mc) tr = Some (Inr m)"
  shows "\<exists>k inner summary. n = Suc k \<and>
           run_loop k be tm 0 [task_message (last_content tr)] = Some (Inr inner) \<and>
           be SOCIETY_OF_MIND_INSTRUCTION inner = Inr summary \<and>
           m = \<lparr>source = nm, content = summary, sequence_number = length tr\<rparr>"
  using assms by (cases n) (auto split: option.splits sum.splits)

lemma respond_leaf_Inr:
  assumes "respond n be (AssistantAgent nm mc p) tr = Some (Inr m)"
  shows "\<exists>answer. be p tr = Inr answer \<and>
           m = \<lparr>source = nm, content = answer, sequence_number = length tr\<rparr>"
  using assms by (cases n) (auto split: sum.splits)

lemma final_shape:
  assumes "run_team n be (create_final_team (SocietyOfMindAgent nm tm mc) (AssistantAgent fn mc' p)) task = Some (Inr tr)"
  shows "\<exists>k inner summary answer.
           run_team k be tm task = Some (Inr inner) \<and>
           be SOCIETY_OF_MIND_INSTRUCTION inner = Inr summary \<and>
           be p [task_message task, \<lparr>source = nm, content = summary, sequence_number = 1\<rparr>] = Inr answer \<and>
           tr = [task_message task,
                 \<lparr>source = nm, content = summary, sequence_number = 1\<rparr>,
                 \<lparr>source = fn, content = answer, sequence_number = 2\<rparr>]"
proof -
  let ?som = "SocietyOfMindAgent nm tm mc" and ?fmt = "AssistantAgent fn mc' p"
  let ?outer = "RoundRobinGroupChat [?som, ?fmt] None (Some 2)"
  let ?t = "task_message task"
  have outer: "create_final_team ?som ?fmt = ?outer"
    by (simp add: create_final_team_def MAX_OUTER_TURNS_def)
  from assms have run0: "run_loop n be ?outer 0 [?t] = Some (Inr tr)"
    by (simp add: run_team_def outer)
  have go0: "\<not> stops ?outer 0 [?t]" by simp
  from run_loop_Inr_cases [OF run0] go0 obtain n1 m1 where
    m1: "respond n1 be ?som [?t] = Some (Inr m1)" and
    run1: "run_loop n1 be ?outer (Suc 0) ([?t] @ [m1]) = Some (Inr tr)"
    by auto
  from respond_som_Inr [OF m1] obtain k inner summary where
    inner: "run_loop k be tm 0 [task_message (last_content [?t])] = Some (Inr inner)" and
    summary: "be SOCIETY_OF_MIND_INSTRUCTION inner = Inr summary" and
    m1_eq: "m1 = \<lparr>source = nm, content = summary, sequence_number = length [?t]\<rparr>"
    by blast
  have go1: "\<not> stops ?outer (Suc 0) ([?t] @ [m1])" by simp
  from run_loop_Inr_cases [OF run1] go1 obtain n2 m2 where
    m2: "respond n2 be ?fmt ([?t] @ [m1]) = Some (Inr m2)" and
    run2: "run_loop n2 be ?outer (Suc (Suc 0)) (([?t] @ [m1]) @ [m2]) = Some (Inr tr)"
    by auto
  from respond_leaf_Inr [OF m2] obtain answer where
    answer: "be p ([?t] @ [m1]) = Inr answer" and
    m2_eq: "m2 = \<lparr>source = fn, content = answer, sequence_number = length ([?t] @ [m1])\<rparr>"
    by blast
  have stop2: "stops ?outer (Suc (Suc 0)) (([?t] @ [m1]) @ [m2])" by simp
  from run_loop_Inr_cases [OF run2] stop2 have tr: "tr = ([?t] @ [m1]) @ [m2]"
    by auto
  have "run_team k be tm task = Some (Inr inner)"
    using inner by (simp add: run_team_def last_content_def task_message_def)
  with summary answer tr m1_eq m2_eq show ?thesis by auto
qed

lemma final_returns: "8 \<le> n \<Longrightarrow> \<exists>r. run_team n be (final_team mc) task = Some r"
proof -
  assume "8 \<le> n"
  then obtain k where n: "n = Suc (Suc (Suc k))" and k: "5 \<le> k"
    by (cases n; cases "n - 1"; cases "n - 2") auto
  let ?som = "SocietyOfMindAgent ''Medical_Standards_SoM'' (standards_team mc) mc"
  let ?fmt = "create_documentation_formatter_agent mc"
  let ?outer = "RoundRobinGroupChat [?som, ?fmt] None (Some 2)"
  let ?t = "task_message task"
  have outer: "final_team mc = ?outer"
    by (simp add: final_team_def create_final_team_def MAX_OUTER_TURNS_def)
  from k have "7 \<le> Suc (Suc k)" by simp
  from som_respond_returns [OF this] obtain r1 where
    r1: "respond (Suc (Suc k)) be ?som [?t] = Some r1"
    by blast
  have step0: "run_loop (Suc (Suc (Suc k))) be ?outer 0 [?t] =
      (case r1 of Inl e \<Rightarrow> Some (Inl e) | Inr m \<Rightarrow> run_loop (Suc (Suc k)) be ?outer (Suc 0) [?t, m])"
    by (subst run_loop.simps(2)) (simp add: r1 del: run_loop.simps respond.simps split: sum.splits)
  have step1: "\<exists>r. run_loop (Suc (Suc k)) be ?outer (Suc 0) [?t, m] = Some r" for m
  proof -
    have "respond (Suc k) be ?fmt [?t, m] \<noteq> None"
      unfolding create_documentation_formatter_agent_def by (rule leaf_respond)
    then obtain r2 where r2: "respond (Suc k) be ?fmt [?t, m] = Some r2"
      by blast
    have "run_loop (Suc (Suc k)) be ?outer (Suc 0) [?t, m] =
        (case r2 of Inl e \<Rightarrow> Some (Inl e) | Inr m2 \<Rightarrow> run_loop (Suc k) be ?outer (Suc (Suc 0)) ([?t, m, m2]))"
      by (subst run_loop.simps(2)) (simp add: r2 del: run_loop.simps respond.simps split: sum.splits)
    then show ?thesis by (cases r2) simp_all
  qed
  show ?thesis
  proof (cases r1)
    case (Inl e)
    with step0 n outer show ?thesis by (simp add: run_team_def)
  next
    case (Inr m)
    with step0 step1 [of m] n outer show ?thesis by (simp add: run_team_def del: run_loop.simps)
  qed
qed

section \<open>The outer team\<close>

text \<open>
  C1. Every run of the final team (the \<open>SocietyOfMindAgent\<close> and the formatter, two
  turns, no outer termination condition) ends, for every backend and every task, once
  the fuel is at least 8. A run that the backend lets complete leaves a transcript of
  exactly three messages: the task, one summary under the name \<open>Medical_Standards_SoM\<close>
  and one message of the \<open>Documentation_Formatter\<close>, whatever the inner standards team
  produced. The only other outcome is a run aborted by an error that some backend call
  returned.
\<close>

theorem final_team_three_messages:
  assumes "8 \<le> n"
  shows "(\<exists>summary answer.
            run_team n be (final_team mc) task =
              Some (Inr [task_message task,
                         \<lparr>source = ''Medical_Standards_SoM'', content = summary, sequence_number = 1\<rparr>,
                         \<lparr>source = ''Documentation_Formatter'', content = answer, sequence_number = 2\<rparr>]))
         \<or> (\<exists>e p t. run_team n be (final_team mc) task = Some (Inl e) \<and> be p t = Inl e)"
proof -
  from final_returns [OF assms] obtain r where r: "run_team n be (final_team mc) task = Some r"
    by blast
  show ?thesis
  proof (cases r)
    case (Inl e)
    with r have "run_loop n be (final_team mc) 0 [task_message task] = Some (Inl e)"
      by (simp add: run_team_def)
    with errors_from_backend [of n be] obtain p t where "be p t = Inl e"
      by blast
    with r Inl show ?thesis by blast
  next
    case (Inr tr)
    with r have "run_team n be (create_final_team
        (SocietyOfMindAgent ''Medical_Standards_SoM'' (standards_team mc) mc)
        (AssistantAgent ''Documentation_Formatter'' mc DOCUMENTATION_FORMATTER_SYSTEM_MESSAGE)) task = Some (Inr tr)"
      by (simp add: final_team_def create_documentation_formatter_agent_def)
    from final_shape [OF this] r Inr show ?thesis by blast
  qed
qed

theorem final_team_three_messages_witness:
  "(8::nat) \<le> 8 \<and>
   ((\<exists>summary answer.
       run_team 8 stub_backend (final_team test_client) ''What is ISO 13485?'' =
         Some (Inr [task_message ''What is ISO 13485?'',
                    \<lparr>source = ''Medical_Standards_SoM'', content = summary, sequence_number = 1\<rparr>,
                    \<lparr>source = ''Documentation_Formatter'', content = answer, sequence_number = 2\<rparr>]))
    \<or> (\<exists>e p t. run_team 8 stub_backend (final_team test_client) ''What is ISO 13485?'' = Some (Inl e)
          \<and> stub_backend p t = Inl e))"
proof -
  have h: "(8::nat) \<le> 8" by simp
  from h final_team_three_messages [OF h] show ?thesis by blast
qed

section \<open>Reading a line\<close>

lemma isspace_lower_char: "isspace (lower_char c) = isspace c"
proof -
  have "(of_char c :: nat) mod 256 = of_char c" by (rule of_char_mod_256)
  then have lt: "(of_char c :: nat) < 256"
    by (metis mod_less_divisor zero_less_numeral)
  show ?thesis
    unfolding isspace_def lower_char_def Let_def using lt
    by auto
qed

lemma strip_lower: "strip (lower s) = lower (strip s)"
proof -
  have comp: "isspace \<circ> lower_char = isspace"
    by (rule ext) (simp add: isspace_lower_char)
  show ?thesis
    by (simp add: strip_def lower_def dropWhile_map rev_map comp)
qed

lemma strip_blank:
  assumes "list_all isspace s"
  shows "strip s = []"
proof -
  from assms have blank: "dropWhile isspace s = []"
    by (induction s) simp_all
  show ?thesis unfolding strip_def blank by simp
qed

lemma get_user_input_exit_iff:
  "(get_user_input (Line s) = ([PromptQuestion, ThankYou], None)) = (lower (strip s) \<in> set EXIT_COMMANDS)"
  by (auto simp: Let_def lower_def EXIT_COMMANDS_def)

text \<open>
  C8. Exit keywords are recognised without regard to letter case: an input line whose
  stripped, lowercased form is \<open>quit\<close>, \<open>exit\<close>, \<open>q\<close> or \<open>bye\<close> makes
  \<open>get_user_input\<close> print its farewell and return \<open>None\<close>, and of two inputs that
  differ in letter case only, either both are taken as an exit command or neither is.
\<close>

theorem exit_keywords_case_insensitive:
  "(lower (strip s) \<in> set EXIT_COMMANDS \<longrightarrow> get_user_input (Line s) = ([PromptQuestion, ThankYou], None))
   \<and> (case_variant s t \<longrightarrow>
        (get_user_input (Line s) = ([PromptQuestion, ThankYou], None)) =
        (get_user_input (Line t) = ([PromptQuestion, ThankYou], None)))"
proof -
  have "lower (strip s) = lower (strip t)" if "case_variant s t"
    using that by (simp add: case_variant_def strip_lower [symmetric])
  then show ?thesis
    unfolding get_user_input_exit_iff by simp
qed

theorem exit_keywords_case_insensitive_witness:
  "lower (strip ''  QuIt '') \<in> set EXIT_COMMANDS \<and> get_user_input (Line ''  QuIt '') = ([PromptQuestion, ThankYou], None)
   \<and> case_variant ''  QuIt '' ''  quiT '' \<and>
        ((get_user_input (Line ''  QuIt '') = ([PromptQuestion, ThankYou], None)) =
        (get_user_input (Line ''  quiT '') = ([PromptQuestion, ThankYou], None)))"
proof -
  have a: "lower (strip ''  QuIt '') \<in> set EXIT_COMMANDS" by code_simp
  have b: "case_variant ''  QuIt '' ''  quiT ''" by code_simp
  from a b exit_keywords_case_insensitive [of "''  QuIt ''" "''  quiT ''"] show ?thesis by blast
qed

section \<open>The entry points\<close>

lemma create_model_client_valid:
  "OPENAI_API_KEY ev = Some k \<Longrightarrow> k \<noteq> [] \<Longrightarrow>
   create_model_client ev = Inr \<lparr>model = MODEL_NAME, api_key = k\<rparr>"
  by (simp add: create_model_client_def)

lemma create_model_client_missing:
  "OPENAI_API_KEY ev = None \<or> OPENAI_API_KEY ev = Some [] \<Longrightarrow>
   create_model_client ev = Inl EnvironmentError"
  by (auto simp: create_model_client_def)

lemma interactive_session_valid:
  "create_model_client ev = Inr mc \<Longrightarrow>
   interactive_session n ev be stdin =
     map_option (\<lambda>r. (WelcomeMessage # r, Inr ())) (interactive_loop n be (final_team mc) stdin)"
  by (simp add: interactive_session_def final_team_def standards_team_def Let_def)

lemma run_single_query_valid:
  "create_model_client ev = Inr mc \<Longrightarrow>
   run_single_query n ev be q =
     (case run_consultation n be (final_team mc) q of
        None \<Rightarrow> None
      | Some (out, Inr u) \<Rightarrow> Some (out, Inr ())
      | Some (out, Inl e) \<Rightarrow> Some (out @ [ErrorNotice e], Inl e))"
  by (simp add: run_single_query_def final_team_def standards_team_def Let_def)

lemma main_interactive:
  "SINGLE_QUERY ev = None \<or> SINGLE_QUERY ev = Some [] \<Longrightarrow>
   main n ev be stdin = interactive_session n ev be stdin"
  by (auto simp: main_def)

lemma main_single:
  "SINGLE_QUERY ev = Some q \<Longrightarrow> q \<noteq> [] \<Longrightarrow> main n ev be stdin = run_single_query n ev be q"
  by (simp add: main_def)

lemma run_consultation_cases:
  "run_team n be ft q = Some (Inr tr) \<Longrightarrow>
     run_consultation n be ft q = Some ([Header q, Rendered tr, SeparatorLine], Inr ())"
  "run_team n be ft q = Some (Inl e) \<Longrightarrow>
     run_consultation n be ft q = Some ([Header q, ErrorDuringConsultation e], Inl e)"
  "run_team n be ft q = None \<Longrightarrow> run_consultation n be ft q = None"
  by (simp_all add: run_consultation_def)

lemma interactive_loop_step:
  assumes "strip s \<noteq> []" "lower (strip s) \<notin> set EXIT_COMMANDS"
  shows "interactive_loop n be ft (Line s # rest) =
     (case run_team n be ft (strip s) of
        None \<Rightarrow> None
      | Some (Inr tr) \<Rightarrow>
          map_option (\<lambda>r. PromptQuestion # Header (strip s) # Rendered tr # SeparatorLine # r)
            (interactive_loop n be ft rest)
      | Some (Inl e) \<Rightarrow>
          map_option (\<lambda>r. PromptQuestion # Header (strip s) # ErrorDuringConsultation e #
                           ConsultationErrorNotice e # r)
            (interactive_loop n be ft rest))"
  using assms
  by (simp add: Let_def run_consultation_def split: option.splits sum.splits)

lemma interactive_loop_runs:
  assumes "8 \<le> n"
  shows "\<exists>out. interactive_loop n be (final_team mc) stdin = Some (PromptQuestion # out) \<and>
           map fst (consultations out) = accepted_queries stdin \<and>
           list_all (\<lambda>(q, r). run_team n be (final_team mc) q = Some r) (consultations out)"
proof (induction stdin)
  case Nil
  show ?case by simp
next
  case (Cons ev rest)
  then obtain out where
    out: "interactive_loop n be (final_team mc) rest = Some (PromptQuestion # out)" and
    tasks: "map fst (consultations out) = accepted_queries rest" and
    runs: "list_all (\<lambda>(q, r). run_team n be (final_team mc) q = Some r) (consultations out)"
    by blast
  show ?case
  proof (cases ev)
    case (Line s)
    show ?thesis
    proof (cases "strip s = [] \<or> lower (strip s) \<in> set EXIT_COMMANDS")
      case True
      with Line show ?thesis by (auto simp: Let_def)
    next
      case False
      from final_returns [OF assms] obtain r where
        r: "run_team n be (final_team mc) (strip s) = Some r"
        by blast
      from False have step: "interactive_loop n be (final_team mc) (Line s # rest) =
         (case run_team n be (final_team mc) (strip s) of
            None \<Rightarrow> None
          | Some (Inr tr) \<Rightarrow>
              map_option (\<lambda>r. PromptQuestion # Header (strip s) # Rendered tr # SeparatorLine # r)
                (interactive_loop n be (final_team mc) rest)
          | Some (Inl e) \<Rightarrow>
              map_option (\<lambda>r. PromptQuestion # Header (strip s) # ErrorDuringConsultation e #
                               ConsultationErrorNotice e # r)
                (interactive_loop n be (final_team mc) rest))"
        by (intro interactive_loop_step) simp_all
      show ?thesis
      proof (cases r)
        case (Inl e)
        with step r out tasks runs False Line show ?thesis by simp
      next
        case (Inr tr)
        with step r out tasks runs False Line show ?thesis by simp
      qed
    qed
  next
    case EOFError
    then show ?thesis by simp
  next
    case KeyboardInterrupt
    then show ?thesis by simp
  qed
qed

text \<open>
  C5. When \<open>OPENAI_API_KEY\<close> is unset or empty, \<open>create_model_client\<close>
  raises \<open>EnvironmentError\<close> before any agent or team exists, and the invocation ends
  there in both modes: nothing is prompted for and no consultation runs, whatever the
  fuel. In single-query mode the error is printed and raised again, so the process ends
  with it. In interactive mode \<open>interactive_session\<close> catches it, prints the
  configuration error after the welcome message and returns, so the process ends by
  returning from \<open>main\<close>.
\<close>

theorem missing_key_ends_process:
  assumes "OPENAI_API_KEY ev = None \<or> OPENAI_API_KEY ev = Some []"
  shows "create_model_client ev = Inl EnvironmentError
       \<and> (\<forall>q. SINGLE_QUERY ev = Some q \<and> q \<noteq> [] \<longrightarrow>
            main n ev be stdin = Some ([ErrorNotice EnvironmentError], Inl EnvironmentError))
       \<and> (SINGLE_QUERY ev = None \<or> SINGLE_QUERY ev = Some [] \<longrightarrow>
            main n ev be stdin =
              Some ([WelcomeMessage, ConfigurationErrorNotice EnvironmentError], Inr ()))"
proof -
  from assms have missing: "create_model_client ev = Inl EnvironmentError"
    by (rule create_model_client_missing)
  have single: "main n ev be stdin = Some ([ErrorNotice EnvironmentError], Inl EnvironmentError)"
    if "SINGLE_QUERY ev = Some q" "q \<noteq> []" for q
    using that missing by (simp add: main_single run_single_query_def)
  have inter: "main n ev be stdin =
      Some ([WelcomeMessage, ConfigurationErrorNotice EnvironmentError], Inr ())"
    if "SINGLE_QUERY ev = None \<or> SINGLE_QUERY ev = Some []"
    using that missing by (simp add: main_interactive interactive_session_def)
  from missing single inter show ?thesis by blast
qed

theorem missing_key_ends_process_witness:
  "(OPENAI_API_KEY \<lparr>OPENAI_API_KEY = None, SINGLE_QUERY = Some ''What is ISO 13485?''\<rparr> = None
     \<or> OPENAI_API_KEY \<lparr>OPENAI_API_KEY = None, SINGLE_QUERY = Some ''What is ISO 13485?''\<rparr> = Some [])
   \<and> main 0 \<lparr>OPENAI_API_KEY = None, SINGLE_QUERY = Some ''What is ISO 13485?''\<rparr> stub_backend [] =
       Some ([ErrorNotice EnvironmentError], Inl EnvironmentError)
   \<and> main 0 \<lparr>OPENAI_API_KEY = Some [], SINGLE_QUERY = None\<rparr> stub_backend [Line ''What is ISO 13485?''] =
       Some ([WelcomeMessage, ConfigurationErrorNotice EnvironmentError], Inr ())"
proof -
  let ?single = "\<lparr>OPENAI_API_KEY = None, SINGLE_QUERY = Some ''What is ISO 13485?''\<rparr>"
  let ?inter = "\<lparr>OPENAI_API_KEY = Some [], SINGLE_QUERY = None\<rparr>"
  have a: "OPENAI_API_KEY ?single = None \<or> OPENAI_API_KEY ?single = Some []" by simp
  have b: "OPENAI_API_KEY ?inter = None \<or> OPENAI_API_KEY ?inter = Some []" by simp
  from a missing_key_ends_process [OF a, of 0 stub_backend "[]"]
       missing_key_ends_process [OF b, of 0 stub_backend "[Line ''What is ISO 13485?'']"]
  show ?thesis by simp
qed

text \<open>
  So the process does not end with the error in both modes: in interactive mode \<open>main\<close>
  returns, and the second component of its result is \<open>Inr ()\<close>.
\<close>

theorem missing_key_interactive_counterexample:
  "main 8 \<lparr>OPENAI_API_KEY = None, SINGLE_QUERY = None\<rparr> stub_backend [Line ''What is ISO 13485?''] =
     Some ([WelcomeMessage, ConfigurationErrorNotice EnvironmentError], Inr ())"
  by (simp add: main_def interactive_session_def create_model_client_def)

text \<open>
  C6. In interactive mode an error raised while a consultation runs is not swallowed by
  \<open>run_consultation\<close>, which prints it and raises it again; \<open>interactive_session\<close>
  catches it for that query, prints its notice and goes on with the loop: the next thing
  the session does is prompt for the next question, and what follows is what the loop
  does on the remaining input.
\<close>

theorem consultation_error_continues:
  assumes key: "OPENAI_API_KEY ev = Some k" "k \<noteq> []"
    and mode: "SINGLE_QUERY ev = None \<or> SINGLE_QUERY ev = Some []"
    and accepted: "strip s \<noteq> []" "lower (strip s) \<notin> set EXIT_COMMANDS"
    and fails: "run_team n be (final_team \<lparr>model = MODEL_NAME, api_key = k\<rparr>) (strip s) = Some (Inl e)"
    and fuel: "8 \<le> n"
  shows "run_consultation n be (final_team \<lparr>model = MODEL_NAME, api_key = k\<rparr>) (strip s) =
           Some ([Header (strip s), ErrorDuringConsultation e], Inl e)
       \<and> (\<exists>out. interactive_loop n be (final_team \<lparr>model = MODEL_NAME, api_key = k\<rparr>) rest =
                   Some (PromptQuestion # out)
              \<and> main n ev be (Line s # rest) =
                   Some (WelcomeMessage # PromptQuestion # Header (strip s) #
                         ErrorDuringConsultation e # ConsultationErrorNotice e #
                         PromptQuestion # out, Inr ()))"
proof -
  let ?ft = "final_team \<lparr>model = MODEL_NAME, api_key = k\<rparr>"
  from fails have reraised: "run_consultation n be ?ft (strip s) =
      Some ([Header (strip s), ErrorDuringConsultation e], Inl e)"
    by (rule run_consultation_cases)
  from interactive_loop_runs [OF fuel] obtain out where
    out: "interactive_loop n be ?ft rest = Some (PromptQuestion # out)"
    by blast
  from accepted fails out have "interactive_loop n be ?ft (Line s # rest) =
      Some (PromptQuestion # Header (strip s) # ErrorDuringConsultation e #
            ConsultationErrorNotice e # PromptQuestion # out)"
    by (simp add: interactive_loop_step del: interactive_loop.simps)
  with key mode have "main n ev be (Line s # rest) =
      Some (WelcomeMessage # PromptQuestion # Header (strip s) #
            ErrorDuringConsultation e # ConsultationErrorNotice e # PromptQuestion # out, Inr ())"
    by (simp add: main_interactive interactive_session_valid create_model_client_valid
        del: interactive_loop.simps)
  with reraised out show ?thesis by blast
qed

theorem consultation_error_continues_witness:
  "OPENAI_API_KEY test_env = Some ''test-key'' \<and> ''test-key'' \<noteq> []
   \<and> (SINGLE_QUERY test_env = None \<or> SINGLE_QUERY test_env = Some [])
   \<and> strip '' Risk? '' \<noteq> [] \<and> lower (strip '' Risk? '') \<notin> set EXIT_COMMANDS
   \<and> run_team 8 failing_backend (final_team \<lparr>model = MODEL_NAME, api_key = ''test-key''\<rparr>)
         (strip '' Risk? '') = Some (Inl (BackendError ''timeout''))
   \<and> (8::nat) \<le> 8
   \<and> run_consultation 8 failing_backend (final_team \<lparr>model = MODEL_NAME, api_key = ''test-key''\<rparr>)
         (strip '' Risk? '') =
       Some ([Header (strip '' Risk? ''), ErrorDuringConsultation (BackendError ''timeout'')],
             Inl (BackendError ''timeout''))
   \<and> (\<exists>out. interactive_loop 8 failing_backend
                (final_team \<lparr>model = MODEL_NAME, api_key = ''test-key''\<rparr>) [Line ''quit''] =
                Some (PromptQuestion # out)
          \<and> main 8 test_env failing_backend [Line '' Risk? '', Line ''quit''] =
                Some (WelcomeMessage # PromptQuestion # Header (strip '' Risk? '') #
                      ErrorDuringConsultation (BackendError ''timeout'') #
                      ConsultationErrorNotice (BackendError ''timeout'') #
                      PromptQuestion # out, Inr ()))"
proof -
  have key: "OPENAI_API_KEY test_env = Some ''test-key''" "''test-key'' \<noteq> []"
    by (simp_all add: test_env_def)
  have mode: "SINGLE_QUERY test_env = None \<or> SINGLE_QUERY test_env = Some []"
    by (simp add: test_env_def)
  have accepted: "strip '' Risk? '' \<noteq> []" "lower (strip '' Risk? '') \<notin> set EXIT_COMMANDS"
    by code_simp+
  have fails: "run_team 8 failing_backend (final_team \<lparr>model = MODEL_NAME, api_key = ''test-key''\<rparr>)
         (strip '' Risk? '') = Some (Inl (BackendError ''timeout''))"
    by code_simp
  have fuel: "(8::nat) \<le> 8" by simp
  from consultation_error_continues [OF key mode accepted fails fuel, of "[Line ''quit'']"]
    key mode accepted fails
  show ?thesis by blast
qed

text \<open>
  C9. A line that is empty or holds only whitespace makes \<open>get_user_input\<close> print its
  request to enter a question and return \<open>None\<close>, and the session takes that \<open>None\<close>
  as the end: it stops there, with no consultation and without reading the input that
  follows, just as it does at an exit keyword; only the message printed differs.
\<close>

theorem blank_line_ends_session:
  assumes key: "OPENAI_API_KEY ev = Some k" "k \<noteq> []"
    and mode: "SINGLE_QUERY ev = None \<or> SINGLE_QUERY ev = Some []"
    and blank: "list_all isspace s"
  shows "get_user_input (Line s) = ([PromptQuestion, PleaseEnterQuestion], None)
       \<and> main n ev be (Line s # rest) =
           Some ([WelcomeMessage, PromptQuestion, PleaseEnterQuestion], Inr ())
       \<and> (lower (strip t) \<in> set EXIT_COMMANDS \<longrightarrow>
           main n ev be (Line t # rest) = Some ([WelcomeMessage, PromptQuestion, ThankYou], Inr ()))"
proof -
  from blank have s: "strip s = []" by (rule strip_blank)
  then have input: "get_user_input (Line s) = ([PromptQuestion, PleaseEnterQuestion], None)"
    by simp
  from key have mc: "create_model_client ev = Inr \<lparr>model = MODEL_NAME, api_key = k\<rparr>"
    by (rule create_model_client_valid)
  from input mode mc have "main n ev be (Line s # rest) =
      Some ([WelcomeMessage, PromptQuestion, PleaseEnterQuestion], Inr ())"
    by (simp add: main_interactive interactive_session_valid del: get_user_input.simps)
  moreover have "main n ev be (Line t # rest) = Some ([WelcomeMessage, PromptQuestion, ThankYou], Inr ())"
    if "lower (strip t) \<in> set EXIT_COMMANDS"
  proof -
    from that have "get_user_input (Line t) = ([PromptQuestion, ThankYou], None)"
      unfolding get_user_input_exit_iff .
    with mode mc show ?thesis
      by (simp add: main_interactive interactive_session_valid del: get_user_input.simps)
  qed
  ultimately show ?thesis using input by blast
qed

theorem blank_line_ends_session_witness:
  "OPENAI_API_KEY test_env = Some ''test-key'' \<and> ''test-key'' \<noteq> []
   \<and> (SINGLE_QUERY test_env = None \<or> SINGLE_QUERY test_env = Some [])
   \<and> list_all isspace ''   ''
   \<and> get_user_input (Line ''   '') = ([PromptQuestion, PleaseEnterQuestion], None)
   \<and> main 8 test_env stub_backend [Line ''   '', Line ''What is ISO 13485?''] =
        Some ([WelcomeMessage, PromptQuestion, PleaseEnterQuestion], Inr ())
   \<and> lower (strip ''Bye'') \<in> set EXIT_COMMANDS
   \<and> main 8 test_env stub_backend [Line ''Bye'', Line ''What is ISO 13485?''] =
        Some ([WelcomeMessage, PromptQuestion, ThankYou], Inr ())"
proof -
  have key: "OPENAI_API_KEY test_env = Some ''test-key''" "''test-key'' \<noteq> []"
    by (simp_all add: test_env_def)
  have mode: "SINGLE_QUERY test_env = None \<or> SINGLE_QUERY test_env = Some []"
    by (simp add: test_env_def)
  have blank: "list_all isspace ''   ''" by code_simp
  have bye: "lower (strip ''Bye'') \<in> set EXIT_COMMANDS" by code_simp
  from blank_line_ends_session [OF key mode blank, of 8 stub_backend "[Line ''What is ISO 13485?'']" "''Bye''"]
    key mode blank bye
  show ?thesis by blast
qed

section \<open>The inner standards team\<close>

lemma run_loop_round_robin:
  assumes "run_loop n be tm turn tr = Some (Inr tr')"
    and "length tr = Suc turn"
    and "\<forall>i. 0 < i \<and> i < length tr \<longrightarrow>
           source (tr ! i) = agent_name (participants tm ! ((i - 1) mod length (participants tm)))"
  shows "\<forall>i. 0 < i \<and> i < length tr' \<longrightarrow>
           source (tr' ! i) = agent_name (participants tm ! ((i - 1) mod length (participants tm)))"
  using assms
proof (induction n arbitrary: turn tr)
  case 0
  then show ?case by simp
next
  case (Suc n)
  from run_loop_Inr_cases [OF Suc.prems(1)]
  consider "stops tm turn tr" "tr' = tr"
    | m where "respond n be (participants tm ! (turn mod length (participants tm))) tr = Some (Inr m)"
        "run_loop n be tm (Suc turn) (tr @ [m]) = Some (Inr tr')"
    by auto
  then show ?case
  proof cases
    case 1
    with Suc.prems(3) show ?thesis by simp
  next
    case 2
    from respond_source [OF 2(1)] have
      src: "source m = agent_name (participants tm ! (turn mod length (participants tm)))"
      by simp
    have len: "length (tr @ [m]) = Suc (Suc turn)" using Suc.prems(2) by simp
    have inv: "\<forall>i. 0 < i \<and> i < length (tr @ [m]) \<longrightarrow>
        source ((tr @ [m]) ! i) = agent_name (participants tm ! ((i - 1) mod length (participants tm)))"
    proof (intro allI impI)
      fix i assume i: "0 < i \<and> i < length (tr @ [m])"
      show "source ((tr @ [m]) ! i) = agent_name (participants tm ! ((i - 1) mod length (participants tm)))"
      proof (cases "i < length tr")
        case True
        with i Suc.prems(3) show ?thesis by (simp add: nth_append)
      next
        case False
        with i Suc.prems(2) have "i = Suc turn" by simp
        with src Suc.prems(2) show ?thesis by (simp add: nth_append)
      qed
    qed
    from Suc.IH [OF 2(2) len inv] show ?thesis .
  qed
qed

lemma run_team_round_robin:
  assumes "run_team n be tm task = Some (Inr tr)" "0 < i" "i < length tr"
  shows "source (tr ! i) = agent_name (participants tm ! ((i - 1) mod length (participants tm)))"
proof -
  from assms(1) have "run_loop n be tm 0 [task_message task] = Some (Inr tr)"
    by (simp add: run_team_def)
  from run_loop_round_robin [OF this] assms(2,3) show ?thesis by simp
qed

lemma standards_team_stub_run:
  assumes "\<not> mentions APPROVAL_KEYWORD task"
  shows "run_team (Suc (Suc (Suc n))) stub_backend (standards_team mc) task =
           Some (Inr [task_message task,
                      \<lparr>source = ''ZenTH_ISO_Standards_Coach'', content = ''guidance text'', sequence_number = 1\<rparr>,
                      \<lparr>source = ''Compliance_Reviewer'', content = ''APPROVE'', sequence_number = 2\<rparr>])"
  using assms
  by (simp add: run_team_def standards_team_def create_standards_team_def
      create_zenth_coach_agent_def create_compliance_reviewer_agent_def stub_backend_def
      task_message_def APPROVAL_KEYWORD_def MAX_INNER_MESSAGES_def)

text \<open>
  C2. With the stub backend, where the Coach answers \<open>guidance text\<close> and
  the Reviewer answers \<open>APPROVE\<close> on its first turn, and for a task that does not itself
  contain \<open>APPROVE\<close>, a run of the inner standards team ends after exactly three
  messages: the task, one Coach turn and one Reviewer turn. On every completed run of
  that team, for any backend and task, turn \<open>i\<close> counted from the task message is taken
  by participant \<open>(i - 1) mod 2\<close>.
\<close>

theorem standards_team_three_messages:
  assumes "\<not> mentions APPROVAL_KEYWORD task" "3 \<le> n"
  shows "run_team n stub_backend (standards_team mc) task =
           Some (Inr [task_message task,
                      \<lparr>source = ''ZenTH_ISO_Standards_Coach'', content = ''guidance text'', sequence_number = 1\<rparr>,
                      \<lparr>source = ''Compliance_Reviewer'', content = ''APPROVE'', sequence_number = 2\<rparr>])
       \<and> (\<forall>k be t tr i. run_team k be (standards_team mc) t = Some (Inr tr) \<and> 0 < i \<and> i < length tr \<longrightarrow>
             source (tr ! i) = agent_name (participants (standards_team mc) ! ((i - 1) mod 2)))"
proof -
  from assms(2) obtain k where "n = Suc (Suc (Suc k))"
    by (cases n; cases "n - 1"; cases "n - 2") auto
  with standards_team_stub_run [OF assms(1), of k mc] have run: "run_team n stub_backend (standards_team mc) task =
           Some (Inr [task_message task,
                      \<lparr>source = ''ZenTH_ISO_Standards_Coach'', content = ''guidance text'', sequence_number = 1\<rparr>,
                      \<lparr>source = ''Compliance_Reviewer'', content = ''APPROVE'', sequence_number = 2\<rparr>])"
    by simp
  have two: "length (participants (standards_team mc)) = 2"
    by (simp add: standards_team_def create_standards_team_def)
  have "source (tr ! i) = agent_name (participants (standards_team mc) ! ((i - 1) mod 2))"
    if "run_team k be (standards_team mc) t = Some (Inr tr)" "0 < i" "i < length tr" for k be t tr i
    using run_team_round_robin [OF that] two by simp
  with run show ?thesis by blast
qed

theorem standards_team_three_messages_witness:
  "\<not> mentions APPROVAL_KEYWORD ''What is ISO 13485?'' \<and> (3::nat) \<le> 3
   \<and> run_team 3 stub_backend (standards_team test_client) ''What is ISO 13485?'' =
       Some (Inr [task_message ''What is ISO 13485?'',
                  \<lparr>source = ''ZenTH_ISO_Standards_Coach'', content = ''guidance text'', sequence_number = 1\<rparr>,
                  \<lparr>source = ''Compliance_Reviewer'', content = ''APPROVE'', sequence_number = 2\<rparr>])
   \<and> source ([task_message ''What is ISO 13485?'',
               \<lparr>source = ''ZenTH_ISO_Standards_Coach'', content = ''guidance text'', sequence_number = 1\<rparr>,
               \<lparr>source = ''Compliance_Reviewer'', content = ''APPROVE'', sequence_number = 2\<rparr>] ! 2) =
       agent_name (participants (standards_team test_client) ! ((2 - 1) mod 2))"
proof -
  have a: "\<not> mentions APPROVAL_KEYWORD ''What is ISO 13485?''" by code_simp
  have b: "(3::nat) \<le> 3" by simp
  have c: "(0::nat) < 2 \<and> (2::nat) < length [task_message ''What is ISO 13485?'',
               \<lparr>source = ''ZenTH_ISO_Standards_Coach'', content = ''guidance text'', sequence_number = 1\<rparr>,
               \<lparr>source = ''Compliance_Reviewer'', content = ''APPROVE'', sequence_number = 2\<rparr>]"
    by simp
  from standards_team_three_messages [OF a b, of test_client] a b c show ?thesis by blast
qed

text \<open>
  The proviso on the task is needed. A task that mentions \<open>APPROVE\<close> satisfies the
  text-mention condition as soon as it is appended, so the run ends with the task message
  alone and neither agent takes a turn.
\<close>

theorem standards_team_task_mentions_approve_counterexample:
  "run_team 6 stub_backend (standards_team test_client) ''Should QA APPROVE the design?'' =
     Some (Inr [task_message ''Should QA APPROVE the design?''])"
  by code_simp

section \<open>The composite agent seen from the outer team\<close>

text \<open>
  C3. Let the outer team wrap any inner team at all in the \<open>SocietyOfMindAgent\<close>. A turn
  of that agent yields one message, under the name \<open>Medical_Standards_SoM\<close>, whose
  content is the backend's summary of the inner transcript, whatever that transcript's
  length. In the transcript of a completed outer run exactly one message is authored by
  \<open>Medical_Standards_SoM\<close>; the inner transcript is not part of it, and no message of
  the Coach or of the Reviewer appears in it.
\<close>

theorem society_of_mind_single_message:
  assumes "run_team n be
             (create_final_team (SocietyOfMindAgent ''Medical_Standards_SoM'' tm mc)
                (create_documentation_formatter_agent mc)) task = Some (Inr tr)"
  shows "(\<exists>k inner summary answer.
            run_team k be tm task = Some (Inr inner)
          \<and> be SOCIETY_OF_MIND_INSTRUCTION inner = Inr summary
          \<and> tr = [task_message task,
                  \<lparr>source = ''Medical_Standards_SoM'', content = summary, sequence_number = 1\<rparr>,
                  \<lparr>source = ''Documentation_Formatter'', content = answer, sequence_number = 2\<rparr>])
       \<and> length (filter (\<lambda>m. source m = ''Medical_Standards_SoM'') tr) = 1
       \<and> list_all (\<lambda>m. source m \<noteq> ''ZenTH_ISO_Standards_Coach'' \<and> source m \<noteq> ''Compliance_Reviewer'') tr
       \<and> (\<forall>j outer_tr m.
             respond j be (SocietyOfMindAgent ''Medical_Standards_SoM'' tm mc) outer_tr = Some (Inr m) \<longrightarrow>
               source m = ''Medical_Standards_SoM''
             \<and> (\<exists>k inner. run_loop k be tm 0 [task_message (last_content outer_tr)] = Some (Inr inner)
                   \<and> be SOCIETY_OF_MIND_INSTRUCTION inner = Inr (content m)))"
proof -
  from assms have "run_team n be
      (create_final_team (SocietyOfMindAgent ''Medical_Standards_SoM'' tm mc)
         (AssistantAgent ''Documentation_Formatter'' mc DOCUMENTATION_FORMATTER_SYSTEM_MESSAGE)) task =
      Some (Inr tr)"
    by (simp add: create_documentation_formatter_agent_def)
  from final_shape [OF this] obtain k inner summary answer where
    inner: "run_team k be tm task = Some (Inr inner)" and
    summary: "be SOCIETY_OF_MIND_INSTRUCTION inner = Inr summary" and
    tr: "tr = [task_message task,
               \<lparr>source = ''Medical_Standards_SoM'', content = summary, sequence_number = 1\<rparr>,
               \<lparr>source = ''Documentation_Formatter'', content = answer, sequence_number = 2\<rparr>]"
    by blast
  from tr have one: "length (filter (\<lambda>m. source m = ''Medical_Standards_SoM'') tr) = 1"
    by (simp add: task_message_def)
  from tr have none: "list_all (\<lambda>m. source m \<noteq> ''ZenTH_ISO_Standards_Coach'' \<and>
      source m \<noteq> ''Compliance_Reviewer'') tr"
    by (simp add: task_message_def)
  have turn: "source m = ''Medical_Standards_SoM''
      \<and> (\<exists>k inner. run_loop k be tm 0 [task_message (last_content outer_tr)] = Some (Inr inner)
            \<and> be SOCIETY_OF_MIND_INSTRUCTION inner = Inr (content m))"
    if "respond j be (SocietyOfMindAgent ''Medical_Standards_SoM'' tm mc) outer_tr = Some (Inr m)"
    for j outer_tr m
  proof -
    from respond_som_Inr [OF that] obtain k inner summary where
      "run_loop k be tm 0 [task_message (last_content outer_tr)] = Some (Inr inner)"
      "be SOCIETY_OF_MIND_INSTRUCTION inner = Inr summary"
      "m = \<lparr>source = ''Medical_Standards_SoM'', content = summary, sequence_number = length outer_tr\<rparr>"
      by blast
    then show ?thesis by auto
  qed
  from inner summary tr one none turn show ?thesis by blast
qed

theorem society_of_mind_single_message_witness:
  "run_team 8 stub_backend
     (create_final_team (SocietyOfMindAgent ''Medical_Standards_SoM'' (standards_team test_client) test_client)
        (create_documentation_formatter_agent test_client)) ''What is ISO 13485?'' =
     Some (Inr [task_message ''What is ISO 13485?'',
                \<lparr>source = ''Medical_Standards_SoM'', content = ''summary'', sequence_number = 1\<rparr>,
                \<lparr>source = ''Documentation_Formatter'', content = ''formatted guidance'', sequence_number = 2\<rparr>])
   \<and> (\<exists>k inner summary answer.
        run_team k stub_backend (standards_team test_client) ''What is ISO 13485?'' = Some (Inr inner)
      \<and> stub_backend SOCIETY_OF_MIND_INSTRUCTION inner = Inr summary
      \<and> [task_message ''What is ISO 13485?'',
         \<lparr>source = ''Medical_Standards_SoM'', content = ''summary'', sequence_number = 1\<rparr>,
         \<lparr>source = ''Documentation_Formatter'', content = ''formatted guidance'', sequence_number = 2\<rparr>] =
        [task_message ''What is ISO 13485?'',
         \<lparr>source = ''Medical_Standards_SoM'', content = summary, sequence_number = 1\<rparr>,
         \<lparr>source = ''Documentation_Formatter'', content = answer, sequence_number = 2\<rparr>])"
proof -
  have run: "run_team 8 stub_backend
     (create_final_team (SocietyOfMindAgent ''Medical_Standards_SoM'' (standards_team test_client) test_client)
        (create_documentation_formatter_agent test_client)) ''What is ISO 13485?'' =
     Some (Inr [task_message ''What is ISO 13485?'',
                \<lparr>source = ''Medical_Standards_SoM'', content = ''summary'', sequence_number = 1\<rparr>,
                \<lparr>source = ''Documentation_Formatter'', content = ''formatted guidance'', sequence_number = 2\<rparr>])"
    by code_simp
  from society_of_mind_single_message [OF run] run show ?thesis by blast
qed

section \<open>Mode selection and the two modes compared\<close>

text \<open>
  C7. Provided \<open>OPENAI_API_KEY\<close> is set and not empty, \<open>main\<close> selects
  the mode from \<open>SINGLE_QUERY\<close>. Set to a non-empty string, exactly one consultation is
  run, with that string as the task of the team's run, and nothing is prompted for.
  Unset or empty, the interactive loop runs: it prompts, and the tasks of the
  consultations it runs are the accepted input lines, stripped, in order.
\<close>

theorem main_selects_mode:
  assumes key: "OPENAI_API_KEY ev = Some k" "k \<noteq> []"
    and fuel: "8 \<le> n"
  shows "(\<forall>q. SINGLE_QUERY ev = Some q \<and> q \<noteq> [] \<longrightarrow>
            (\<exists>out ex r. main n ev be stdin = Some (out, ex)
               \<and> run_team n be (final_team \<lparr>model = MODEL_NAME, api_key = k\<rparr>) q = Some r
               \<and> consultations out = [(q, r)]
               \<and> PromptQuestion \<notin> set out))
       \<and> (SINGLE_QUERY ev = None \<or> SINGLE_QUERY ev = Some [] \<longrightarrow>
            (\<exists>out. main n ev be stdin = Some (WelcomeMessage # PromptQuestion # out, Inr ())
               \<and> map fst (consultations out) = accepted_queries stdin
               \<and> list_all (\<lambda>(q, r). run_team n be (final_team \<lparr>model = MODEL_NAME, api_key = k\<rparr>) q = Some r)
                    (consultations out)))"
proof -
  let ?ft = "final_team \<lparr>model = MODEL_NAME, api_key = k\<rparr>"
  from key have mc: "create_model_client ev = Inr \<lparr>model = MODEL_NAME, api_key = k\<rparr>"
    by (rule create_model_client_valid)
  have single: "\<exists>out ex r. main n ev be stdin = Some (out, ex)
      \<and> run_team n be ?ft q = Some r \<and> consultations out = [(q, r)] \<and> PromptQuestion \<notin> set out"
    if q: "SINGLE_QUERY ev = Some q" "q \<noteq> []" for q
  proof -
    from final_returns [OF fuel] obtain r where r: "run_team n be ?ft q = Some r"
      by blast
    from q have m: "main n ev be stdin = run_single_query n ev be q"
      by (rule main_single)
    show ?thesis
    proof (cases r)
      case (Inl e)
      with r have "run_consultation n be ?ft q = Some ([Header q, ErrorDuringConsultation e], Inl e)"
        by (simp add: run_consultation_cases)
      with m mc have "main n ev be stdin =
          Some ([Header q, ErrorDuringConsultation e, ErrorNotice e], Inl e)"
        by (simp add: run_single_query_valid)
      with r Inl show ?thesis by simp
    next
      case (Inr tr)
      with r have "run_consultation n be ?ft q = Some ([Header q, Rendered tr, SeparatorLine], Inr ())"
        by (simp add: run_consultation_cases)
      with m mc have "main n ev be stdin = Some ([Header q, Rendered tr, SeparatorLine], Inr ())"
        by (simp add: run_single_query_valid)
      with r Inr show ?thesis by simp
    qed
  qed
  have inter: "\<exists>out. main n ev be stdin = Some (WelcomeMessage # PromptQuestion # out, Inr ())
      \<and> map fst (consultations out) = accepted_queries stdin
      \<and> list_all (\<lambda>(q, r). run_team n be ?ft q = Some r) (consultations out)"
    if mode: "SINGLE_QUERY ev = None \<or> SINGLE_QUERY ev = Some []"
  proof -
    from interactive_loop_runs [OF fuel] obtain out where
      "interactive_loop n be ?ft stdin = Some (PromptQuestion # out)"
      "map fst (consultations out) = accepted_queries stdin"
      "list_all (\<lambda>(q, r). run_team n be ?ft q = Some r) (consultations out)"
      by blast
    with mode mc show ?thesis
      by (simp add: main_interactive interactive_session_valid)
  qed
  from single inter show ?thesis by blast
qed

theorem main_selects_mode_witness:
  "OPENAI_API_KEY (test_env\<lparr>SINGLE_QUERY := Some ''What is ISO 13485?''\<rparr>) = Some ''test-key''
   \<and> ''test-key'' \<noteq> [] \<and> (8::nat) \<le> 8
   \<and> (\<exists>out ex r.
         main 8 (test_env\<lparr>SINGLE_QUERY := Some ''What is ISO 13485?''\<rparr>) stub_backend [Line ''ignored''] =
           Some (out, ex)
         \<and> run_team 8 stub_backend (final_team \<lparr>model = MODEL_NAME, api_key = ''test-key''\<rparr>)
              ''What is ISO 13485?'' = Some r
         \<and> consultations out = [(''What is ISO 13485?'', r)]
         \<and> PromptQuestion \<notin> set out)
   \<and> (\<exists>out.
         main 8 test_env stub_backend [Line '' Risk? '', Line ''SOUP?'', Line ''q'', Line ''late''] =
           Some (WelcomeMessage # PromptQuestion # out, Inr ())
         \<and> map fst (consultations out) = [''Risk?'', ''SOUP?''])"
proof -
  let ?single = "test_env\<lparr>SINGLE_QUERY := Some ''What is ISO 13485?''\<rparr>"
  have key1: "OPENAI_API_KEY ?single = Some ''test-key''" and key2: "''test-key'' \<noteq> []"
    and key3: "OPENAI_API_KEY test_env = Some ''test-key''"
    by (simp_all add: test_env_def)
  have fuel: "(8::nat) \<le> 8" by simp
  have q: "SINGLE_QUERY ?single = Some ''What is ISO 13485?'' \<and> ''What is ISO 13485?'' \<noteq> []"
    by simp
  have mode: "SINGLE_QUERY test_env = None \<or> SINGLE_QUERY test_env = Some []"
    by (simp add: test_env_def)
  have acc: "accepted_queries [Line '' Risk? '', Line ''SOUP?'', Line ''q'', Line ''late''] =
      [''Risk?'', ''SOUP?'']"
    by code_simp
  from main_selects_mode [OF key1 key2 fuel, of stub_backend "[Line ''ignored'']"] q
  have single: "\<exists>out ex r.
         main 8 ?single stub_backend [Line ''ignored''] = Some (out, ex)
         \<and> run_team 8 stub_backend (final_team \<lparr>model = MODEL_NAME, api_key = ''test-key''\<rparr>)
              ''What is ISO 13485?'' = Some r
         \<and> consultations out = [(''What is ISO 13485?'', r)]
         \<and> PromptQuestion \<notin> set out"
    by blast
  from main_selects_mode [OF key3 key2 fuel, of stub_backend
      "[Line '' Risk? '', Line ''SOUP?'', Line ''q'', Line ''late'']"] mode acc
  have inter: "\<exists>out.
         main 8 test_env stub_backend [Line '' Risk? '', Line ''SOUP?'', Line ''q'', Line ''late''] =
           Some (WelcomeMessage # PromptQuestion # out, Inr ())
         \<and> map fst (consultations out) = [''Risk?'', ''SOUP?'']"
    by (metis (no_types, lifting))
  from key1 key2 fuel single inter show ?thesis by blast
qed

text \<open>
  The proviso on the key is needed. Without the key, single-query mode runs no
  consultation at all.
\<close>

theorem single_query_without_key_counterexample:
  "main 8 \<lparr>OPENAI_API_KEY = None, SINGLE_QUERY = Some ''What is ISO 13485?''\<rparr> stub_backend [] =
     Some ([ErrorNotice EnvironmentError], Inl EnvironmentError)
   \<and> consultations [ErrorNotice EnvironmentError] = []"
  by (simp add: main_def run_single_query_def create_model_client_def)

text \<open>
  C10. \<open>run_single_query\<close> and \<open>interactive_session\<close> build the same pipeline: the
  same three agents with their names and system messages, the inner team of Coach then
  Reviewer under \<open>TextMention(APPROVE) Or MaxMessages(6)\<close>, the same
  \<open>SocietyOfMindAgent\<close> around it and the same outer team of two turns; both hand that
  team to \<open>run_consultation\<close>. So a query that the interactive prompt accepts
  unchanged, that is, one that is not blank, has no whitespace around it and is not an
  exit keyword, gives the same consultation, task and transcript or error alike, in
  either mode.
\<close>

theorem both_modes_same_pipeline:
  assumes accepted: "strip q \<noteq> []" "strip q = q" "lower q \<notin> set EXIT_COMMANDS"
  shows "final_team mc =
           RoundRobinGroupChat
             [SocietyOfMindAgent ''Medical_Standards_SoM''
                (RoundRobinGroupChat
                   [AssistantAgent ''ZenTH_ISO_Standards_Coach'' mc ZENTH_COACH_SYSTEM_MESSAGE,
                    AssistantAgent ''Compliance_Reviewer'' mc COMPLIANCE_REVIEWER_SYSTEM_MESSAGE]
                   (Some (OrTerminationCondition (TextMentionTermination ''APPROVE'')
                            (MaxMessageTermination 6)))
                   None)
                mc,
              AssistantAgent ''Documentation_Formatter'' mc DOCUMENTATION_FORMATTER_SYSTEM_MESSAGE]
             None (Some 2)
       \<and> (create_model_client ev = Inr mc \<longrightarrow>
            run_single_query n ev be q =
              (case run_consultation n be (final_team mc) q of
                 None \<Rightarrow> None
               | Some (out, Inr u) \<Rightarrow> Some (out, Inr ())
               | Some (out, Inl e) \<Rightarrow> Some (out @ [ErrorNotice e], Inl e))
            \<and> interactive_session n ev be stdin =
                map_option (\<lambda>r. (WelcomeMessage # r, Inr ()))
                  (interactive_loop n be (final_team mc) stdin))
       \<and> map_option (\<lambda>(out, ex). consultations out)
            (main n (ev\<lparr>SINGLE_QUERY := Some q\<rparr>) be stdin) =
          map_option (\<lambda>(out, ex). consultations out)
            (main n (ev\<lparr>SINGLE_QUERY := None\<rparr>) be [Line q])"
proof -
  have shape: "final_team mc =
           RoundRobinGroupChat
             [SocietyOfMindAgent ''Medical_Standards_SoM''
                (RoundRobinGroupChat
                   [AssistantAgent ''ZenTH_ISO_Standards_Coach'' mc ZENTH_COACH_SYSTEM_MESSAGE,
                    AssistantAgent ''Compliance_Reviewer'' mc COMPLIANCE_REVIEWER_SYSTEM_MESSAGE]
                   (Some (OrTerminationCondition (TextMentionTermination ''APPROVE'')
                            (MaxMessageTermination 6)))
                   None)
                mc,
              AssistantAgent ''Documentation_Formatter'' mc DOCUMENTATION_FORMATTER_SYSTEM_MESSAGE]
             None (Some 2)"
    by (simp add: final_team_def standards_team_def create_final_team_def create_standards_team_def
        create_zenth_coach_agent_def create_compliance_reviewer_agent_def
        create_documentation_formatter_agent_def APPROVAL_KEYWORD_def MAX_INNER_MESSAGES_def
        MAX_OUTER_TURNS_def)
  have same_team: "run_single_query n ev be q =
              (case run_consultation n be (final_team mc) q of
                 None \<Rightarrow> None
               | Some (out, Inr u) \<Rightarrow> Some (out, Inr ())
               | Some (out, Inl e) \<Rightarrow> Some (out @ [ErrorNotice e], Inl e))
            \<and> interactive_session n ev be stdin =
                map_option (\<lambda>r. (WelcomeMessage # r, Inr ()))
                  (interactive_loop n be (final_team mc) stdin)"
    if "create_model_client ev = Inr mc"
    using that by (simp add: run_single_query_valid interactive_session_valid)
  let ?single = "ev\<lparr>SINGLE_QUERY := Some q\<rparr>" and ?inter = "ev\<lparr>SINGLE_QUERY := None\<rparr>"
  from accepted have q: "q \<noteq> []" by auto
  have ms: "main n ?single be stdin = run_single_query n ?single be q"
    using q by (simp add: main_single)
  have mi: "main n ?inter be [Line q] = interactive_session n ?inter be [Line q]"
    by (simp add: main_interactive)
  have same_runs: "map_option (\<lambda>(out, ex). consultations out) (main n ?single be stdin) =
      map_option (\<lambda>(out, ex). consultations out) (main n ?inter be [Line q])"
  proof (cases "create_model_client ev")
    case (Inl e)
    then have "create_model_client ?single = Inl e" "create_model_client ?inter = Inl e"
      by (simp_all add: create_model_client_def)
    then show ?thesis
      unfolding ms mi
      by (cases e) (simp_all add: run_single_query_def interactive_session_def)
  next
    case (Inr c)
    then have c: "create_model_client ?single = Inr c" "create_model_client ?inter = Inr c"
      by (simp_all add: create_model_client_def)
    have step: "interactive_loop n be (final_team c) [Line q] =
       (case run_team n be (final_team c) (strip q) of
          None \<Rightarrow> None
        | Some (Inr tr) \<Rightarrow>
            map_option (\<lambda>r. PromptQuestion # Header (strip q) # Rendered tr # SeparatorLine # r)
              (interactive_loop n be (final_team c) [])
        | Some (Inl e) \<Rightarrow>
            map_option (\<lambda>r. PromptQuestion # Header (strip q) # ErrorDuringConsultation e #
                             ConsultationErrorNotice e # r)
              (interactive_loop n be (final_team c) []))"
      using accepted by (intro interactive_loop_step) simp_all
    show ?thesis
      unfolding ms mi run_single_query_valid [OF c(1)] interactive_session_valid [OF c(2)] step
      using accepted(2)
      by (simp add: run_consultation_def split: option.splits sum.splits)
  qed
  from shape same_team same_runs show ?thesis by blast
qed

theorem both_modes_same_pipeline_witness:
  "strip ''What is ISO 13485?'' \<noteq> [] \<and> strip ''What is ISO 13485?'' = ''What is ISO 13485?''
   \<and> lower ''What is ISO 13485?'' \<notin> set EXIT_COMMANDS
   \<and> map_option (\<lambda>(out, ex). consultations out)
        (main 8 (test_env\<lparr>SINGLE_QUERY := Some ''What is ISO 13485?''\<rparr>) stub_backend []) =
      map_option (\<lambda>(out, ex). consultations out)
        (main 8 (test_env\<lparr>SINGLE_QUERY := None\<rparr>) stub_backend [Line ''What is ISO 13485?''])"
proof -
  have a: "strip ''What is ISO 13485?'' \<noteq> []" by code_simp
  have b: "strip ''What is ISO 13485?'' = ''What is ISO 13485?''" by code_simp
  have c: "lower ''What is ISO 13485?'' \<notin> set EXIT_COMMANDS" by code_simp
  from both_modes_same_pipeline [OF a b c, where ev = test_env and n = 8 and be = stub_backend
      and stdin = "[]" and mc = test_client] a b c
  show ?thesis by blast
qed

text \<open>
  The proviso on the query is needed. Single-query mode hands \<open>SINGLE_QUERY\<close> to the
  team as it is, while the interactive prompt strips the line and ends the session at a
  blank line or an exit keyword. So the query \<open>quit\<close> is a consultation of three
  messages in single-query mode and no consultation at all when typed at the prompt.
\<close>

theorem both_modes_exit_keyword_counterexample:
  "map_option (\<lambda>(out, ex). consultations out)
     (main 8 (test_env\<lparr>SINGLE_QUERY := Some ''quit''\<rparr>) stub_backend []) =
     Some [(''quit'',
            Inr [task_message ''quit'',
                 \<lparr>source = ''Medical_Standards_SoM'', content = ''summary'', sequence_number = 1\<rparr>,
                 \<lparr>source = ''Documentation_Formatter'', content = ''formatted guidance'',
                    sequence_number = 2\<rparr>])]
   \<and> map_option (\<lambda>(out, ex). consultations out)
       (main 8 (test_env\<lparr>SINGLE_QUERY := None\<rparr>) stub_backend [Line ''quit'']) = Some []"
  by code_simp

end
